theory Spec2Isabelle
  imports Complex_Main
begin

section \<open>Python values shared by all modules\<close>

text \<open>
  Exceptions of the Python interpreter that the modelled code can raise by itself.
  A fallible operation returns \<open>py_error + 'a\<close>, with \<open>Inl\<close> for the raised exception.
\<close>

datatype py_error = IndexError | ZeroDivisionError | UnboundLocalError

text \<open>
  \<open>xs[i]\<close> on a Python list: a negative index counts from the end, an index outside
  the list raises \<open>IndexError\<close>.
\<close>

definition py_get :: "'a list \<Rightarrow> int \<Rightarrow> py_error + 'a" where
  "py_get xs i =
     (if 0 \<le> i \<and> i < int (length xs) then Inr (xs ! nat i)
      else if i < 0 \<and> - int (length xs) \<le> i then Inr (xs ! nat (int (length xs) + i))
      else Inl IndexError)"

section \<open>Preprocessor/ImageDataset.py\<close>

text \<open>
  \<open>ImageDatesetCombined\<close> holds two \<open>ImageFolder\<close> datasets and the size multiplicator.
  An \<open>ImageFolder\<close> is indexed like the list of its samples and yields the pair
  (transformed image, class index); the model keeps that list of pairs.
\<close>

record 'img ImageDatesetCombined =
  size_multiplicator :: int
  dataset_a :: "('img \<times> nat) list"
  dataset_b :: "('img \<times> nat) list"

definition len :: "'img ImageDatesetCombined \<Rightarrow> int" where
  "len self =
     min (int (length (dataset_a self))) (int (length (dataset_b self))) * size_multiplicator self"

text \<open>
  \<open>__getitem__\<close>: \<open>i %= self.size_multiplicator\<close> (Python's floored modulo, which raises on
  a zero divisor), then both datasets are read at the reduced index, \<open>dataset_a\<close> first.
\<close>

definition getitem :: "'img ImageDatesetCombined \<Rightarrow> int \<Rightarrow> py_error + ('img \<times> 'img)" where
  "getitem self i =
     (if size_multiplicator self = 0 then Inl ZeroDivisionError
      else
        let i' = i mod size_multiplicator self in
        case py_get (dataset_a self) i' of
          Inl e \<Rightarrow> Inl e
        | Inr a \<Rightarrow>
            (case py_get (dataset_b self) i' of
               Inl e \<Rightarrow> Inl e
             | Inr b \<Rightarrow> Inr (fst a, fst b)))"

section \<open>Utils/Anonymizer.py\<close>

text \<open>
  The collaborators of \<open>Anonymizer\<close> are objects built in \<open>__init__\<close>: the model (with its
  \<open>img2latent_bridge\<close> and \<open>anonymize\<close> methods), the face extractor and the face
  reconstructor, together with the library calls \<open>squeeze(0)\<close>, \<open>ToPILImage()\<close> (after
  \<open>cpu().detach()\<close>, which does not change the values) and \<open>resize(size, BICUBIC)\<close>.
  They are fields of the record; an image without a face makes the extractor return
  \<open>None\<close> for the face.
\<close>

record ('scene, 'face, 'info, 'lat, 'ten, 'size) Anonymizer =
  extractor :: "'scene \<Rightarrow> 'face option \<times> 'info"
  img2latent_bridge :: "'face \<Rightarrow> 'info \<Rightarrow> 'lat"
  anonymize :: "'lat \<Rightarrow> 'ten"
  squeeze0 :: "'ten \<Rightarrow> 'ten"
  ToPILImage :: "'ten \<Rightarrow> 'face"
  face_size :: "'face \<Rightarrow> 'size"
  resize_bicubic :: "'face \<Rightarrow> 'size \<Rightarrow> 'face"
  reconstructor :: "'face \<Rightarrow> 'info \<Rightarrow> 'scene"

text \<open>The calls \<open>__call__\<close> makes on its collaborators, in the order it makes them.\<close>

datatype anonymizer_call =
  CallExtractor | CallImg2Latent | CallAnonymize | CallReconstructor

text \<open>
  \<open>__call__\<close> returns \<open>constructed_image\<close>, which starts as \<open>None\<close> and is assigned only
  inside \<open>if extracted_face is not None\<close>. The second component lists the collaborator
  calls made.
\<close>

definition call :: "('scene, 'face, 'info, 'lat, 'ten, 'size) Anonymizer \<Rightarrow> 'scene
                      \<Rightarrow> 'scene option \<times> anonymizer_call list" where
  "call self scene =
     (let (extracted_face, extracted_information) = extractor self scene in
      case extracted_face of
        None \<Rightarrow> (None, [CallExtractor])
      | Some face \<Rightarrow>
          let latent_information = img2latent_bridge self face extracted_information;
              face_out = squeeze0 self (anonymize self latent_information);
              face_out = ToPILImage self face_out;
              face_out = resize_bicubic self face_out (face_size self face);
              constructed_image = reconstructor self face_out extracted_information
          in (Some constructed_image,
              [CallExtractor, CallImg2Latent, CallAnonymize, CallReconstructor]))"

text \<open>
  A small anonymizer over strings, for evaluating \<open>call\<close>: the scene \<open>''''\<close> has no face,
  any other scene is its own face; sizes and extraction information are numbers.
\<close>

definition example_anonymizer :: "(string, string, nat, string, string, nat) Anonymizer" where
  "example_anonymizer =
     \<lparr>extractor = (\<lambda>s. if s = [] then (None, 0) else (Some s, length s)),
      img2latent_bridge = (\<lambda>face info. take info face),
      anonymize = (\<lambda>lat. rev lat),
      squeeze0 = (\<lambda>t. t),
      ToPILImage = (\<lambda>t. t),
      face_size = length,
      resize_bicubic = (\<lambda>face n. take n face),
      reconstructor = (\<lambda>face info. ''scene:'' @ face)\<rparr>"

section \<open>Utils/Trainer.py\<close>







subsection \<open>The schedule as the specification words it\<close>







section \<open>Models/CPGGAN/CPGGAN.py\<close>

subsection \<open>The model object and the framework it runs on\<close>

text \<open>
  The attributes of a \<open>CPGGAN\<close> object that \<open>train\<close> reads or writes. Most are set by the
  base class \<open>PGGAN\<close>. The networks are their parameters (\<open>'g\<close>, \<open>'d\<close>), the optimizers
  their internal state (\<open>'og\<close>, \<open>'od\<close>), tensors are values of \<open>'t\<close>, and \<open>'r\<close> is the state
  of the random number generator. The counters \<open>images_faded_in\<close>,
  \<open>images_per_fading_phase\<close> and \<open>batch_size\<close> count images, so they are naturals.

  Gradients are kept the way autograd accumulates them: \<open>loss.backward()\<close> adds the
  gradient of \<open>loss\<close> to every parameter the loss was computed from, \<open>zero_grad()\<close> clears
  them, and \<open>step()\<close> updates the parameters from what has been accumulated. \<open>G_grad\<close> and
  \<open>D_grad\<close> hold each accumulated loss as a function of the parameters.
  \<open>D_training\<close> is the mode flag set by \<open>self.D.train(mode)\<close>.
  \<open>static_landmarks\<close> and \<open>static_lowres\<close> are the samples \<open>__init__\<close> draws from the two
  \<open>MultivariateNormal\<close> distributions built from the loaded mean and covariance arrays,
  rescaled as \<open>2 * (sample - 0.5)\<close>; no other value is drawn from those distributions.
  \<open>data_loader\<close> is what \<open>self.data_loader.get_train_data_loader()\<close> yields: the batches
  \<open>(images, features)\<close> in order. The moves to the GPU do not change values and are left
  out.
\<close>

record ('g, 'd, 'og, 'od, 't, 'r) CPGGAN =
  stabilization_phase :: bool
  resolution_level :: int
  images_faded_in :: nat
  images_per_fading_phase :: nat
  batch_size :: nat
  G :: 'g
  D :: 'd
  D_training :: bool
  G_grad :: "('g \<Rightarrow> real) list"
  D_grad :: "('d \<Rightarrow> real) list"
  G_optimizer :: 'og
  D_optimizer :: 'od
  static_noise :: 't
  static_landmarks :: 't
  static_lowres :: 't
  data_loader :: "('t \<times> 't) list"
  rng :: 'r

text \<open>
  What \<open>train\<close> calls and this file does not define: the forward passes of the networks
  (the discriminator yields one score per sample and depends on its mode), the tensor
  operations \<open>torch.cat(\<dots>, 1)\<close>, \<open>t[:n]\<close> and
  \<open>features.view((batch_size, -1, 1, 1)).repeat((1, 1, images.shape[2], images.shape[2]))\<close>,
  the noise generator \<open>self.noise\<close>, and of \<open>PGGAN\<close> the methods
  \<open>calculate_gradient_penalty\<close> (which draws random numbers and depends on the
  discriminator) and \<open>schedule_resolution\<close>, and the optimizers' \<open>step\<close>.
\<close>

record ('g, 'd, 'og, 'od, 't, 'r) torch =
  G_forward :: "'g \<Rightarrow> 't \<Rightarrow> real \<Rightarrow> 't"
  D_forward :: "'d \<Rightarrow> bool \<Rightarrow> 't \<Rightarrow> real \<Rightarrow> real list"
  cat1 :: "'t \<Rightarrow> 't \<Rightarrow> 't"
  slice :: "'t \<Rightarrow> nat \<Rightarrow> 't"
  view_repeat :: "'t \<Rightarrow> nat \<Rightarrow> 't \<Rightarrow> 't"
  noise :: "'r \<Rightarrow> nat \<Rightarrow> 't \<times> 'r"
  calculate_gradient_penalty :: "'r \<Rightarrow> 'd \<Rightarrow> bool \<Rightarrow> 't \<Rightarrow> 't \<Rightarrow> real \<Rightarrow> real \<times> 'r"
  G_optimizer_step :: "'og \<Rightarrow> ('g \<Rightarrow> real) list \<Rightarrow> 'g \<Rightarrow> 'og \<times> 'g"
  D_optimizer_step :: "'od \<Rightarrow> ('d \<Rightarrow> real) list \<Rightarrow> 'd \<Rightarrow> 'od \<times> 'd"
  schedule_resolution ::
    "('g, 'd, 'og, 'od, 't, 'r) CPGGAN \<Rightarrow> ('g, 'd, 'og, 'od, 't, 'r) CPGGAN"

text \<open>
  \<open>Tensor.mean()\<close> of a vector of scores, in exact arithmetic: floating-point rounding is
  not modelled. (On an empty tensor \<open>torch\<close> yields \<open>nan\<close>; here the value is 0.)
\<close>

definition tmean :: "real list \<Rightarrow> real" where
  "tmean xs = sum_list xs / real (length xs)"

subsection \<open>The loop body of \<open>train\<close>\<close>

text \<open>
  Lines 71 to 77: the level handed to both networks. The true division
  \<open>images_faded_in / images_per_fading_phase\<close> raises on a zero divisor.
\<close>

definition fade_level :: "('g, 'd, 'og, 'od, 't, 'r) CPGGAN \<Rightarrow> py_error + real" where
  "fade_level self =
     (if stabilization_phase self then Inr (of_int (resolution_level self))
      else if images_per_fading_phase self = 0 then Inl ZeroDivisionError
      else
        let fade_in_factor = real (images_faded_in self) / real (images_per_fading_phase self)
        in Inr (of_int (resolution_level self) - 1 +
                (if fade_in_factor \<noteq> 0 then fade_in_factor else 1 / 10 ^ 10)))"

text \<open>
  Lines 79 to 97: noise and features of the batch, and the inputs built from them. In
  validation the static noise and the static samples replace the batch's features; in
  training the features are the ones the data loader delivered with the images, and fresh
  noise is drawn.
\<close>

record 't conditioning =
  noise_used :: 't
  features_used :: 't
  input_vec :: 't
  features_fill :: 't
  input_img_real :: 't

definition condition_batch ::
  "('g, 'd, 'og, 'od, 't, 'r) torch \<Rightarrow> bool \<Rightarrow> ('g, 'd, 'og, 'od, 't, 'r) CPGGAN \<Rightarrow> 't \<Rightarrow> 't
     \<Rightarrow> 't conditioning \<times> ('g, 'd, 'og, 'od, 't, 'r) CPGGAN" where
  "condition_batch T validate self images features =
     (let (z, features', self') =
            (if validate
             then (slice T (static_noise self) (batch_size self),
                   cat1 T (slice T (static_landmarks self) (batch_size self))
                          (slice T (static_lowres self) (batch_size self)),
                   self)
             else (fst (noise T (rng self) (batch_size self)),
                   features,
                   self\<lparr>rng := snd (noise T (rng self) (batch_size self))\<rparr>));
          fill = view_repeat T features' (batch_size self) images
      in (\<lparr>noise_used = z, features_used = features', input_vec = cat1 T z features',
           features_fill = fill, input_img_real = cat1 T images fill\<rparr>,
          self'))"

text \<open>
  Lines 110 to 114: the loss term of the real samples, \<open>eps_loss = 0.001 * (D_real ** 2).mean()\<close>
  and \<open>D_real = -D_real.mean() + eps_loss\<close>, as functions of the discriminator's scores.
\<close>

definition eps_loss_of :: "real list \<Rightarrow> real" where
  "eps_loss_of D_real = 0.001 * tmean (map (\<lambda>x. x ^ 2) D_real)"

definition D_real_of :: "real list \<Rightarrow> real" where
  "D_real_of D_real = - tmean D_real + eps_loss_of D_real"

text \<open>
  Lines 140 and 141, with the variables as the code has them at that point: \<open>D_real\<close> is
  the value assigned in line 114, \<open>D_fake\<close> the mean of line 129.
\<close>

definition D_loss_of :: "real \<Rightarrow> real \<Rightarrow> real \<Rightarrow> real" where
  "D_loss_of D_real D_fake gp = D_fake - D_real + gp"

definition Wasserstein_D_of :: "real \<Rightarrow> real \<Rightarrow> real" where
  "Wasserstein_D_of D_real D_fake = D_real - D_fake"

text \<open>The values a completed iteration adds to the sums and leaves in the loop variables.\<close>

record 't batch_values =
  cur_level :: real
  G_fake :: 't
  G_loss :: real
  D_loss :: real
  Wasserstein_D :: real
  eps_loss :: real

datatype 't batch_result =
  Stopped real 't
| Completed "'t batch_values"

text \<open>
  One iteration of \<open>for images, features in train_data_loader\<close>, lines 71 to 161. With
  \<open>validate\<close> the iteration ends at the \<open>break\<close> of line 122 (\<open>Stopped\<close>, with \<open>cur_level\<close>
  and \<open>G_fake\<close>); every statement before it that changes the object is guarded by
  \<open>if not validate\<close>. After the \<open>break\<close> \<open>validate\<close> is false, so the guards there are
  taken. \<open>input_img_fake.detach()\<close> keeps the discriminator's losses from reaching the
  generator; the generator's loss of line 157 reaches both networks.
\<close>

definition train_batch ::
  "('g, 'd, 'og, 'od, 't, 'r) torch \<Rightarrow> bool \<Rightarrow> ('g, 'd, 'og, 'od, 't, 'r) CPGGAN \<Rightarrow> 't \<times> 't
     \<Rightarrow> py_error + (('g, 'd, 'og, 'od, 't, 'r) CPGGAN \<times> 't batch_result)" where
  "train_batch T validate self batch =
     (case fade_level self of
        Inl e \<Rightarrow> Inl e
      | Inr level \<Rightarrow>
         (let (c, self1) = condition_batch T validate self (fst batch) (snd batch);
              self2 = (if \<not> validate then self1\<lparr>D_training := True, D_grad := []\<rparr> else self1);
              mode = D_training self2;
              D_real = D_real_of (D_forward T (D self2) mode (input_img_real c) level);
              self3 = (if \<not> validate
                       then self2\<lparr>D_grad := D_grad self2 @
                              [\<lambda>d. D_real_of (D_forward T d mode (input_img_real c) level)]\<rparr>
                       else self2);
              fake = G_forward T (G self3) (input_vec c) level
          in if validate then Inr (self3, Stopped level fake)
             else
               (let input_img_fake = cat1 T fake (features_fill c);
                    D_fake = tmean (D_forward T (D self3) mode input_img_fake level);
                    self4 = self3\<lparr>D_grad := D_grad self3 @
                              [\<lambda>d. tmean (D_forward T d mode input_img_fake level)]\<rparr>;
                    penalty = (\<lambda>d. calculate_gradient_penalty T (rng self4) d mode
                                       (input_img_real c) input_img_fake level);
                    gp = fst (penalty (D self4));
                    self5 = self4\<lparr>rng := snd (penalty (D self4)),
                                  D_grad := D_grad self4 @ [\<lambda>d. fst (penalty d)]\<rparr>;
                    step_D = D_optimizer_step T (D_optimizer self5) (D_grad self5) (D self5);
                    self6 = self5\<lparr>D_optimizer := fst step_D, D := snd step_D\<rparr>;
                    self7 = self6\<lparr>D_training := False, G_grad := []\<rparr>;
                    loss_G = - tmean (D_forward T (D self7) False input_img_fake level);
                    self8 = self7
                      \<lparr>G_grad := G_grad self7 @
                         [\<lambda>g. - tmean (D_forward T (D self7) False
                                          (cat1 T (G_forward T g (input_vec c) level)
                                                  (features_fill c)) level)],
                       D_grad := D_grad self7 @
                         [\<lambda>d. - tmean (D_forward T d False input_img_fake level)]\<rparr>;
                    step_G = G_optimizer_step T (G_optimizer self8) (G_grad self8) (G self8);
                    self9 = self8\<lparr>G_optimizer := fst step_G, G := snd step_G\<rparr>
                in Inr (self9,
                        Completed
                          \<lparr>cur_level = level, G_fake = fake, G_loss = loss_G,
                           D_loss = D_loss_of D_real D_fake gp,
                           Wasserstein_D = Wasserstein_D_of D_real D_fake,
                           eps_loss = eps_loss_of
                             (D_forward T (D self2) mode (input_img_real c) level)\<rparr>))))"

subsection \<open>The loop and the function\<close>









subsection \<open>Observing the loop\<close>



subsection \<open>A small instance\<close>

text \<open>
  A framework small enough to evaluate: a tensor is a list of rows, one row per sample;
  the generator scales the sum of its input row, the discriminator scores a row by its
  scaled sum; concatenation joins rows, the fill keeps the features; the optimizers count
  their steps. The model is in a fading phase towards level 3 with two images per fading
  phase, batches of one image and a loader of four batches.
\<close>

definition toy_torch :: "(real, real, nat, nat, real list list, nat) torch" where
  "toy_torch =
     \<lparr>G_forward = (\<lambda>g z level. map (\<lambda>row. [g * sum_list row]) z),
      D_forward = (\<lambda>d mode x level. map (\<lambda>row. d * sum_list row) x),
      cat1 = (\<lambda>a b. map2 (@) a b),
      slice = (\<lambda>t n. take n t),
      view_repeat = (\<lambda>features n images. features),
      noise = (\<lambda>r n. (replicate n [real r], Suc r)),
      calculate_gradient_penalty = (\<lambda>r d mode real_img fake_img level. ((d - 1) ^ 2, Suc r)),
      G_optimizer_step = (\<lambda>og losses g. (Suc og, g + 1)),
      D_optimizer_step = (\<lambda>od losses d. (Suc od, d / 2)),
      schedule_resolution = (\<lambda>self. self)\<rparr>"

definition toy_model :: "(real, real, nat, nat, real list list, nat) CPGGAN" where
  "toy_model =
     \<lparr>stabilization_phase = False, resolution_level = 3,
      images_faded_in = 0, images_per_fading_phase = 2, batch_size = 1,
      G = 1, D = 2, D_training = False, G_grad = [], D_grad = [],
      G_optimizer = 0, D_optimizer = 0,
      static_noise = [[5]], static_landmarks = [[7]], static_lowres = [[9]],
      data_loader = [([[1]], [[3]]), ([[1]], [[3]]), ([[1]], [[3]]), ([[1]], [[3]])],
      rng = 0\<rparr>"

section \<open>Models/DeepFake/DeepFakeOriginal.py\<close>

subsection \<open>The model object\<close>

text \<open>
  Encoder and decoders are module objects; two autoencoders refer to them. Since the
  claims depend on which objects are shared, modules live in a store: \<open>weights\<close> maps a
  module's identity to its parameters and \<open>grad\<close> to the gradients accumulated on them (each
  a loss as a function of that module's parameters, the other module's being fixed). The
  fields \<open>encoder\<close>, \<open>decoder1\<close>, \<open>decoder2\<close> hold identities, and an autoencoder is the
  pair of identities it was built from. The moves to the GPU do not change values.
\<close>

record ('w, 'o, 's) DeepFakeOriginal =
  weights :: "nat \<Rightarrow> 'w"
  grad :: "nat \<Rightarrow> ('w \<Rightarrow> real) list"
  encoder :: nat
  decoder1 :: nat
  decoder2 :: nat
  autoencoder1 :: "nat \<times> nat"
  autoencoder2 :: "nat \<times> nat"
  optimizer1 :: 'o
  optimizer2 :: 'o
  scheduler1 :: 's
  scheduler2 :: 's

text \<open>
  The library the class runs on: the forward passes of an encoder and a decoder with given
  parameters, \<open>torch.nn.L1Loss\<close>, a new \<open>Adam\<close> optimizer and its \<open>step\<close> on the two modules
  of an autoencoder (each with its accumulated gradients and its parameters), a new
  \<open>ReduceLROnPlateau\<close> scheduler and its \<open>step\<close>, which may change the optimizer.
\<close>

record ('w, 'o, 's, 'x, 'l) deepfake_framework =
  encode :: "'w \<Rightarrow> 'x \<Rightarrow> 'l"
  decode :: "'w \<Rightarrow> 'l \<Rightarrow> 'x"
  L1Loss :: "'x \<Rightarrow> 'x \<Rightarrow> real"
  Adam_new :: 'o
  Adam_step :: "'o \<Rightarrow> ('w \<Rightarrow> real) list \<times> 'w \<Rightarrow> ('w \<Rightarrow> real) list \<times> 'w \<Rightarrow> 'o \<times> 'w \<times> 'w"
  ReduceLROnPlateau_new :: 's
  ReduceLROnPlateau_step :: "'s \<Rightarrow> 'o \<Rightarrow> real \<Rightarrow> int \<Rightarrow> 's \<times> 'o"


definition AutoEncoder_forward ::
  "('w, 'o, 's, 'x, 'l) deepfake_framework \<Rightarrow> ('w, 'o, 's) DeepFakeOriginal \<Rightarrow> nat \<times> nat \<Rightarrow> 'x \<Rightarrow> 'x" where
  "AutoEncoder_forward F self ae x =
     decode F (weights self (snd ae)) (encode F (weights self (fst ae)) x)"


subsection \<open>One batch of \<open>train\<close>\<close>

text \<open>
  \<open>optimizer.zero_grad()\<close> clears the gradients of the two modules of the optimizer's
  autoencoder; \<open>loss.backward()\<close>, for \<open>loss = lossfn(autoencoder(x), target)\<close>, adds to each
  of the two modules the loss as a function of its parameters; \<open>optimizer.step()\<close> updates
  the parameters of both modules in the store.
\<close>

definition zero_grad :: "('w, 'o, 's) DeepFakeOriginal \<Rightarrow> nat \<times> nat \<Rightarrow> ('w, 'o, 's) DeepFakeOriginal" where
  "zero_grad self ae = self\<lparr>grad := (grad self)(fst ae := [], snd ae := [])\<rparr>"

definition loss_backward ::
  "('w, 'o, 's, 'x, 'l) deepfake_framework \<Rightarrow> ('w, 'o, 's) DeepFakeOriginal \<Rightarrow> nat \<times> nat \<Rightarrow> 'x \<Rightarrow> 'x
     \<Rightarrow> ('w, 'o, 's) DeepFakeOriginal" where
  "loss_backward F self ae x target =
     (let e = weights self (fst ae); d = weights self (snd ae);
          g = (grad self)(fst ae := grad self (fst ae) @
                 [\<lambda>e'. L1Loss F (decode F d (encode F e' x)) target])
      in self\<lparr>grad := g(snd ae := g (snd ae) @
                 [\<lambda>d'. L1Loss F (decode F d' (encode F e x)) target])\<rparr>)"

definition optimizer_step ::
  "('w, 'o, 's, 'x, 'l) deepfake_framework \<Rightarrow> ('w, 'o, 's) DeepFakeOriginal \<Rightarrow> 'o \<Rightarrow> nat \<times> nat
     \<Rightarrow> ('w, 'o, 's) DeepFakeOriginal \<times> 'o" where
  "optimizer_step F self opt ae =
     (let (opt', e', d') = Adam_step F opt (grad self (fst ae), weights self (fst ae))
                                          (grad self (snd ae), weights self (snd ae))
      in (self\<lparr>weights := (weights self)(fst ae := e', snd ae := d')\<rparr>, opt'))"

text \<open>The loop body, lines 55 to 70: the first autoencoder is trained, then the second.\<close>

record 'x deepfake_batch_values =
  output1 :: 'x
  loss1 :: real
  output2 :: 'x
  loss2 :: real

definition deepfake_train_batch ::
  "('w, 'o, 's, 'x, 'l) deepfake_framework \<Rightarrow> ('w, 'o, 's) DeepFakeOriginal
     \<Rightarrow> ('x \<times> 'x) \<times> ('x \<times> 'x) \<Rightarrow> ('w, 'o, 's) DeepFakeOriginal \<times> 'x deepfake_batch_values" where
  "deepfake_train_batch F self batch =
     (let face1_warped = fst (fst batch); face1 = snd (fst batch);
          face2_warped = fst (snd batch); face2 = snd (snd batch);
          self = zero_grad self (autoencoder1 self);
          out1 = AutoEncoder_forward F self (autoencoder1 self) face1_warped;
          l1 = L1Loss F out1 face1;
          self = loss_backward F self (autoencoder1 self) face1_warped face1;
          (self, opt1) = optimizer_step F self (optimizer1 self) (autoencoder1 self);
          self = self\<lparr>optimizer1 := opt1\<rparr>;
          self = zero_grad self (autoencoder2 self);
          out2 = AutoEncoder_forward F self (autoencoder2 self) face2_warped;
          l2 = L1Loss F out2 face2;
          self = loss_backward F self (autoencoder2 self) face2_warped face2;
          (self, opt2) = optimizer_step F self (optimizer2 self) (autoencoder2 self);
          self = self\<lparr>optimizer2 := opt2\<rparr>
      in (self, \<lparr>output1 = out1, loss1 = l1, output2 = out2, loss2 = l2\<rparr>))"

subsection \<open>The loop, \<open>train\<close> and \<open>anonymize\<close>\<close>

text \<open>
  The sums of the losses, the number of batches and the images of the last batch. After
  the loop both sums are divided by the number of batches, which raises when there was
  none (so the images are those of a batch whenever they are returned), and both
  schedulers step on the mean losses. \<open>current_epoch\<close> is
  \<open>kwargs.get('current_epoch', -1)\<close>.
\<close>

record 'x deepfake_locals =
  loss1_mean :: real
  loss2_mean :: real
  passes :: nat
  images_seen :: "'x list option"

fun deepfake_train_loop ::
  "('w, 'o, 's, 'x, 'l) deepfake_framework \<Rightarrow> ('w, 'o, 's) DeepFakeOriginal \<Rightarrow> 'x deepfake_locals
     \<Rightarrow> (('x \<times> 'x) \<times> ('x \<times> 'x)) list
     \<Rightarrow> ('w, 'o, 's) DeepFakeOriginal \<times> 'x deepfake_locals" where
  "deepfake_train_loop F self acc [] = (self, acc)"
| "deepfake_train_loop F self acc (batch # rest) =
     (let (self', v) = deepfake_train_batch F self batch
      in deepfake_train_loop F self'
           \<lparr>loss1_mean = loss1_mean acc + loss1 v,
            loss2_mean = loss2_mean acc + loss2 v,
            passes = passes acc + 1,
            images_seen = Some [fst (fst batch), output1 v, snd (fst batch),
                                fst (snd batch), output2 v, snd (snd batch)]\<rparr>
           rest)"

definition DeepFakeOriginal_train ::
  "('w, 'o, 's, 'x, 'l) deepfake_framework \<Rightarrow> ('w, 'o, 's) DeepFakeOriginal
     \<Rightarrow> (('x \<times> 'x) \<times> ('x \<times> 'x)) list \<Rightarrow> int
     \<Rightarrow> py_error + (('w, 'o, 's) DeepFakeOriginal \<times> real \<times> real \<times> 'x list)" where
  "DeepFakeOriginal_train F self train_data_loader current_epoch =
     (let (self1, acc) = deepfake_train_loop F self
            \<lparr>loss1_mean = 0, loss2_mean = 0, passes = 0, images_seen = None\<rparr> train_data_loader
      in if passes acc = 0 then Inl ZeroDivisionError
         else
           (let mean1 = loss1_mean acc / real (passes acc);
                mean2 = loss2_mean acc / real (passes acc);
                sched1 = ReduceLROnPlateau_step F (scheduler1 self1) (optimizer1 self1)
                           mean1 current_epoch;
                sched2 = ReduceLROnPlateau_step F (scheduler2 self1) (optimizer2 self1)
                           mean2 current_epoch
            in Inr (self1\<lparr>scheduler1 := fst sched1, optimizer1 := snd sched1,
                           scheduler2 := fst sched2, optimizer2 := snd sched2\<rparr>,
                    mean1, mean2,
                    (case images_seen acc of Some images \<Rightarrow> images | None \<Rightarrow> []))))"





section \<open>Properties of the dataset\<close>

lemma py_get_in_range:
  "0 \<le> j \<Longrightarrow> j < int (length xs) \<Longrightarrow> py_get xs j = Inr (xs ! nat j)"
  by (simp add: py_get_def)

lemma py_get_beyond:
  "int (length xs) \<le> j \<Longrightarrow> py_get xs j = Inl IndexError"
  by (simp add: py_get_def)

text \<open>
  Claim C10. The length is the smaller dataset's length times the multiplicator. For every
  index \<open>i\<close> below that length, the reduced index \<open>i mod m\<close> lies in \<open>0..<m\<close>, and
  \<open>__getitem__\<close> yields the images stored at that reduced index in both datasets; it
  raises \<open>IndexError\<close> exactly when the reduced index is not below the smaller dataset's
  length. So only the first \<open>m\<close> samples of either dataset are ever returned.
\<close>

theorem ImageDatesetCombined_getitem:
  "len self = min (int (length (dataset_a self))) (int (length (dataset_b self)))
                 * size_multiplicator self \<and>
   (0 \<le> i \<and> i < len self \<longrightarrow>
      0 \<le> i mod size_multiplicator self \<and>
      i mod size_multiplicator self < size_multiplicator self \<and>
      getitem self i =
        (if min (int (length (dataset_a self))) (int (length (dataset_b self)))
              \<le> i mod size_multiplicator self
         then Inl IndexError
         else Inr (fst (dataset_a self ! nat (i mod size_multiplicator self)),
                   fst (dataset_b self ! nat (i mod size_multiplicator self)))))"
proof -
  let ?m = "size_multiplicator self"
  let ?a = "dataset_a self" and ?b = "dataset_b self"
  let ?k = "min (int (length ?a)) (int (length ?b))"
  have len: "len self = ?k * ?m"
    by (simp add: len_def)
  have rest: "0 \<le> i mod ?m \<and> i mod ?m < ?m \<and>
      getitem self i =
        (if ?k \<le> i mod ?m then Inl IndexError
         else Inr (fst (?a ! nat (i mod ?m)), fst (?b ! nat (i mod ?m))))"
    if i: "0 \<le> i" "i < len self"
  proof -
    have "0 < ?k * ?m" using i len by simp
    moreover have "0 \<le> ?k" by simp
    ultimately have m: "0 < ?m"
      by (simp add: zero_less_mult_iff)
    have lo: "0 \<le> i mod ?m" and hi: "i mod ?m < ?m"
      using m by simp_all
    have get: "getitem self i =
        (if ?k \<le> i mod ?m then Inl IndexError
         else Inr (fst (?a ! nat (i mod ?m)), fst (?b ! nat (i mod ?m))))"
    proof (cases "?k \<le> i mod ?m")
      case True
      show ?thesis
      proof (cases "int (length ?a) \<le> i mod ?m")
        case True
        with \<open>?k \<le> i mod ?m\<close> m show ?thesis
          by (simp add: getitem_def Let_def py_get_beyond)
      next
        case False
        with \<open>?k \<le> i mod ?m\<close> have b: "int (length ?b) \<le> i mod ?m"
          by (simp add: min_def split: if_splits)
        from False lo have "py_get ?a (i mod ?m) = Inr (?a ! nat (i mod ?m))"
          by (simp add: py_get_in_range)
        with b \<open>?k \<le> i mod ?m\<close> m show ?thesis
          by (simp add: getitem_def Let_def py_get_beyond)
      qed
    next
      case False
      then have "i mod ?m < int (length ?a)" "i mod ?m < int (length ?b)"
        by simp_all
      with lo have "py_get ?a (i mod ?m) = Inr (?a ! nat (i mod ?m))"
        "py_get ?b (i mod ?m) = Inr (?b ! nat (i mod ?m))"
        by (simp_all add: py_get_in_range)
      with False m show ?thesis
        by (simp add: getitem_def Let_def)
    qed
    from lo hi get show ?thesis by simp
  qed
  from len rest show ?thesis by blast
qed

text \<open>
  Two datasets of three images each with multiplicator 2: index 3 is valid (the length is
  6) and reads position 1; the third image of either dataset is out of reach.
\<close>

theorem ImageDatesetCombined_getitem_witness:
  "len \<lparr>size_multiplicator = 2,
         dataset_a = [(''a0'', 0), (''a1'', 0), (''a2'', 0)],
         dataset_b = [(''b0'', 0), (''b1'', 0), (''b2'', 0)]\<rparr> = 6 \<and>
   getitem \<lparr>size_multiplicator = 2,
         dataset_a = [(''a0'', 0), (''a1'', 0), (''a2'', 0)],
         dataset_b = [(''b0'', 0), (''b1'', 0), (''b2'', 0)]\<rparr> 3 = Inr (''a1'', ''b1'')"
  using ImageDatesetCombined_getitem
    [of "\<lparr>size_multiplicator = 2,
         dataset_a = [(''a0'', 0), (''a1'', 0), (''a2'', 0)],
         dataset_b = [(''b0'', 0), (''b1'', 0), (''b2'', 0)]\<rparr>" 3]
  by (simp add: len_def)

section \<open>Properties of the anonymizer\<close>

text \<open>
  Claim C4. When the extractor finds a face, \<open>__call__\<close> returns the scene rebuilt by the
  reconstructor from the extraction information and the model's output, the latter
  squeezed, converted to a PIL image and resized to the size of the extracted face.
\<close>

theorem Anonymizer_call_face:
  "extractor self scene = (Some face, info) \<Longrightarrow>
   fst (call self scene) =
     Some (reconstructor self
             (resize_bicubic self
                (ToPILImage self (squeeze0 self (anonymize self (img2latent_bridge self face info))))
                (face_size self face))
             info)"
  by (simp add: call_def)

theorem Anonymizer_call_face_witness:
  "extractor example_anonymizer ''face'' = (Some ''face'', 4) \<and>
   fst (call example_anonymizer ''face'') = Some ''scene:ecaf''"
  using Anonymizer_call_face [of example_anonymizer "''face''" "''face''" 4]
  by (simp add: example_anonymizer_def)

text \<open>
  Claim C8. When the extractor finds no face, \<open>__call__\<close> returns \<open>None\<close> (not the input
  image) and the extractor is the only collaborator called: the model is not run.
\<close>

theorem Anonymizer_call_no_face:
  "extractor self scene = (None, info) \<Longrightarrow> call self scene = (None, [CallExtractor])"
  by (simp add: call_def)

theorem Anonymizer_call_no_face_witness:
  "extractor example_anonymizer [] = (None, 0) \<and>
   call example_anonymizer [] = (None, [CallExtractor])"
  using Anonymizer_call_no_face [of example_anonymizer "[]" 0]
  by (simp add: example_anonymizer_def)

section \<open>Properties of the trainer\<close>














section \<open>Properties of CPGGAN.train\<close>

subsection \<open>One iteration\<close>





lemma train_batch_explicit:
  fixes T :: "('g, 'd, 'og, 'od, 't, 'r) torch"
    and self :: "('g, 'd, 'og, 'od, 't, 'r) CPGGAN"
    and images features :: 't and level :: real
  assumes level: "fade_level self = Inr level"
  defines "z \<equiv> fst (noise T (rng self) (batch_size self))"
    and "fill \<equiv> view_repeat T features (batch_size self) images"
  defines "real_in \<equiv> cat1 T images fill"
    and "fake \<equiv> G_forward T (G self) (cat1 T z features) level"
  defines "fake_in \<equiv> cat1 T fake fill"
  defines "penalty \<equiv> (\<lambda>d. calculate_gradient_penalty T (snd (noise T (rng self) (batch_size self)))
                             d True real_in fake_in level)"
  defines "step_D \<equiv> D_optimizer_step T (D_optimizer self)
       [\<lambda>d. D_real_of (D_forward T d True real_in level),
        \<lambda>d. tmean (D_forward T d True fake_in level),
        \<lambda>d. fst (penalty d)] (D self)"
  defines "step_G \<equiv> G_optimizer_step T (G_optimizer self)
       [\<lambda>g. - tmean (D_forward T (snd step_D) False
                        (cat1 T (G_forward T g (cat1 T z features) level) fill) level)] (G self)"
  shows "\<exists>self' v. train_batch T False self (images, features) = Inr (self', Completed v) \<and>
     D self' = snd step_D \<and> D_optimizer self' = fst step_D \<and> \<not> D_training self' \<and>
     G self' = snd step_G \<and> G_optimizer self' = fst step_G \<and>
     cur_level v = level \<and> G_fake v = fake \<and>
     G_loss v = - tmean (D_forward T (snd step_D) False fake_in level) \<and>
     D_loss v = D_loss_of (D_real_of (D_forward T (D self) True real_in level))
                  (tmean (D_forward T (D self) True fake_in level)) (fst (penalty (D self))) \<and>
     Wasserstein_D v = Wasserstein_D_of (D_real_of (D_forward T (D self) True real_in level))
                  (tmean (D_forward T (D self) True fake_in level)) \<and>
     eps_loss v = eps_loss_of (D_forward T (D self) True real_in level)"
  unfolding step_G_def step_D_def penalty_def fake_in_def fake_def real_in_def fill_def z_def
  using level by (simp add: train_batch_def condition_batch_def Let_def)


subsection \<open>The sequence of iterations\<close>









subsection \<open>The level schedule\<close>





subsection \<open>The discriminator's loss\<close>

text \<open>
  Claim C2 against the code. In a training iteration the discriminator takes one
  optimizer step on the three accumulated losses \<open>-mean D(real) + eps\<close>, \<open>mean D(fake)\<close> and
  the gradient penalty, which is the Wasserstein loss with gradient penalty. The reported
  numbers are computed from the variable \<open>D_real\<close> after line 114 has negated it:
  \<open>D_loss\<close> is \<open>mean D(fake) + mean D(real) - eps + gp\<close> and \<open>Wasserstein_D\<close> is
  \<open>-mean D(real) + eps - mean D(fake)\<close>, so the sign of \<open>mean D(real)\<close> is the opposite of the
  claimed one in both.
\<close>

theorem CPGGAN_train_discriminator_loss:
  fixes T :: "('g, 'd, 'og, 'od, 't, 'r) torch"
    and self :: "('g, 'd, 'og, 'od, 't, 'r) CPGGAN"
    and images features :: 't and level :: real
  defines "z \<equiv> fst (noise T (rng self) (batch_size self))"
    and "fill \<equiv> view_repeat T features (batch_size self) images"
  defines "real_in \<equiv> cat1 T images fill"
    and "fake_in \<equiv> cat1 T (G_forward T (G self) (cat1 T z features) level) fill"
  defines "penalty \<equiv> (\<lambda>d. fst (calculate_gradient_penalty T
                             (snd (noise T (rng self) (batch_size self))) d True real_in fake_in level))"
  defines "real_scores \<equiv> D_forward T (D self) True real_in level"
    and "fake_scores \<equiv> D_forward T (D self) True fake_in level"
  shows "fade_level self = Inr level \<longrightarrow>
     (\<exists>self' v. train_batch T False self (images, features) = Inr (self', Completed v) \<and>
        D self' = snd (D_optimizer_step T (D_optimizer self)
           [\<lambda>d. - tmean (D_forward T d True real_in level)
                 + 0.001 * tmean (map (\<lambda>x. x ^ 2) (D_forward T d True real_in level)),
            \<lambda>d. tmean (D_forward T d True fake_in level),
            penalty] (D self)) \<and>
        eps_loss v = 0.001 * tmean (map (\<lambda>x. x ^ 2) real_scores) \<and>
        D_loss v = tmean fake_scores + tmean real_scores - eps_loss v + penalty (D self) \<and>
        Wasserstein_D v = - tmean real_scores + eps_loss v - tmean fake_scores)"
proof
  assume "fade_level self = Inr level"
  from train_batch_explicit
    [OF this, where T = T and images = images and features = features]
  obtain self' v where
    "train_batch T False self (images, features) = Inr (self', Completed v)"
    "D self' = snd (D_optimizer_step T (D_optimizer self)
           [\<lambda>d. - tmean (D_forward T d True real_in level)
                 + 0.001 * tmean (map (\<lambda>x. x ^ 2) (D_forward T d True real_in level)),
            \<lambda>d. tmean (D_forward T d True fake_in level),
            penalty] (D self))"
    "eps_loss v = 0.001 * tmean (map (\<lambda>x. x ^ 2) real_scores)"
    "D_loss v = D_loss_of (D_real_of real_scores) (tmean fake_scores) (penalty (D self))"
    "Wasserstein_D v = Wasserstein_D_of (D_real_of real_scores) (tmean fake_scores)"
    unfolding penalty_def fake_scores_def real_scores_def fake_in_def real_in_def fill_def z_def
      D_real_of_def eps_loss_of_def
    by (elim exE conjE) blast
  then show "\<exists>self' v. train_batch T False self (images, features) = Inr (self', Completed v) \<and>
        D self' = snd (D_optimizer_step T (D_optimizer self)
           [\<lambda>d. - tmean (D_forward T d True real_in level)
                 + 0.001 * tmean (map (\<lambda>x. x ^ 2) (D_forward T d True real_in level)),
            \<lambda>d. tmean (D_forward T d True fake_in level),
            penalty] (D self)) \<and>
        eps_loss v = 0.001 * tmean (map (\<lambda>x. x ^ 2) real_scores) \<and>
        D_loss v = tmean fake_scores + tmean real_scores - eps_loss v + penalty (D self) \<and>
        Wasserstein_D v = - tmean real_scores + eps_loss v - tmean fake_scores"
    by (simp add: D_loss_of_def Wasserstein_D_of_def D_real_of_def eps_loss_of_def)
qed


text \<open>
  With scores 8 on the real and 12 on the generated input and penalty 1 the code reports
  \<open>D_loss = 20.936\<close> and \<open>Wasserstein_D = -19.936\<close>, where the claimed formulas give 5 (up to
  the drift term 0.064) and -4.
\<close>

theorem CPGGAN_train_discriminator_loss_witness:
  "fade_level toy_model = Inr (2 + 1 / 10 ^ 10) \<and>
   D_forward toy_torch (D toy_model) True [[1, 3]] (2 + 1 / 10 ^ 10) = [8] \<and>
   D_forward toy_torch (D toy_model) True [[3, 3]] (2 + 1 / 10 ^ 10) = [12] \<and>
   (\<exists>self' v. train_batch toy_torch False toy_model ([[1]], [[3]]) = Inr (self', Completed v) \<and>
      eps_loss v = 0.064 \<and> D_loss v = 20.936 \<and> Wasserstein_D v = - 19.936)"
proof -
  have level: "fade_level toy_model = Inr (2 + 1 / 10 ^ 10)"
    by (simp add: fade_level_def toy_model_def)
  have scores: "D_forward toy_torch (D toy_model) True [[1, 3]] (2 + 1 / 10 ^ 10) = [8]"
    "D_forward toy_torch (D toy_model) True [[3, 3]] (2 + 1 / 10 ^ 10) = [12]"
    by (simp_all add: toy_torch_def toy_model_def)
  from CPGGAN_train_discriminator_loss
    [of toy_model "2 + 1 / 10 ^ 10" toy_torch "[[1]]" "[[3]]"] level
  have "\<exists>self' v. train_batch toy_torch False toy_model ([[1]], [[3]]) = Inr (self', Completed v) \<and>
      eps_loss v = 0.064 \<and> D_loss v = 20.936 \<and> Wasserstein_D v = - 19.936"
    by (auto simp: toy_torch_def toy_model_def tmean_def)
  with level scores show ?thesis by simp
qed

subsection \<open>The conditioning features\<close>

text \<open>
  Claim C3, as far as it holds. In a training iteration the features joined to the noise
  for the generator and appended to the images for the discriminator are the features the
  data loader delivered with the batch; the samples drawn from the Gaussian distributions
  (\<open>static_landmarks\<close>, \<open>static_lowres\<close>) have no influence on them. The sampled features
  are used when \<open>validate\<close> is set, together with the static noise.
\<close>

theorem CPGGAN_train_features:
  fixes T :: "('g, 'd, 'og, 'od, 't, 'r) torch"
    and self :: "('g, 'd, 'og, 'od, 't, 'r) CPGGAN"
    and images features landmarks lowres :: 't and level :: real
  defines "z \<equiv> fst (noise T (rng self) (batch_size self))"
    and "training \<equiv> fst (condition_batch T False self images features)"
    and "validation \<equiv> fst (condition_batch T True self images features)"
    and "sampled \<equiv> cat1 T (slice T (static_landmarks self) (batch_size self))
                           (slice T (static_lowres self) (batch_size self))"
  shows "features_used training = features \<and>
     input_vec training = cat1 T z features \<and>
     input_img_real training = cat1 T images (view_repeat T features (batch_size self) images) \<and>
     fst (condition_batch T False
            (self\<lparr>static_landmarks := landmarks, static_lowres := lowres\<rparr>) images features)
       = training \<and>
     features_used validation = sampled \<and>
     input_vec validation = cat1 T (slice T (static_noise self) (batch_size self)) sampled \<and>
     (fade_level self = Inr level \<longrightarrow>
        (\<exists>self' v. train_batch T False self (images, features) = Inr (self', Completed v) \<and>
           G_fake v = G_forward T (G self) (cat1 T z features) level))"
proof -
  have "\<exists>self' v. train_batch T False self (images, features) = Inr (self', Completed v) \<and>
           G_fake v = G_forward T (G self) (cat1 T z features) level"
    if "fade_level self = Inr level"
    using train_batch_explicit
      [OF that, where T = T and images = images and features = features]
    unfolding z_def by blast
  then show ?thesis
    unfolding training_def validation_def sampled_def z_def
    by (simp add: condition_batch_def Let_def)
qed

theorem CPGGAN_train_features_witness:
  "fade_level toy_model = Inr (2 + 1 / 10 ^ 10) \<and>
   features_used (fst (condition_batch toy_torch False toy_model [[1]] [[3]])) = [[3]] \<and>
   input_vec (fst (condition_batch toy_torch False toy_model [[1]] [[3]])) = [[0, 3]] \<and>
   features_used (fst (condition_batch toy_torch True toy_model [[1]] [[3]])) = [[7, 9]] \<and>
   (\<exists>self' v. train_batch toy_torch False toy_model ([[1]], [[3]]) = Inr (self', Completed v) \<and>
      G_fake v = [[3]])"
proof -
  have level: "fade_level toy_model = Inr (2 + 1 / 10 ^ 10)"
    by (simp add: fade_level_def toy_model_def)
  from CPGGAN_train_features
    [of toy_torch toy_model "[[1]]" "[[3]]" "[[7]]" "[[9]]" "2 + 1 / 10 ^ 10"] level
  show ?thesis
    by (auto simp: toy_torch_def toy_model_def)
qed

text \<open>
  The claim as stated fails: in the small instance the training features are the loader's
  \<open>[[3]]\<close>, not the sampled \<open>[[7, 9]]\<close>.
\<close>

theorem CPGGAN_train_features_not_sampled:
  "features_used (fst (condition_batch toy_torch False toy_model [[1]] [[3]])) \<noteq>
   cat1 toy_torch (slice toy_torch (static_landmarks toy_model) (batch_size toy_model))
                  (slice toy_torch (static_lowres toy_model) (batch_size toy_model))"
  by (simp add: condition_batch_def toy_torch_def toy_model_def)

subsection \<open>The generator's update and the logged losses\<close>




subsection \<open>Validation\<close>



section \<open>Properties of DeepFakeOriginal\<close>





lemma AutoEncoder_forward_weights:
  "weights a = weights b \<Longrightarrow> AutoEncoder_forward F a ae x = AutoEncoder_forward F b ae x"
  by (simp add: AutoEncoder_forward_def)





end
